theory Spec2Isabelle
  imports Main "HOL-Library.AList"
begin

section \<open>JavaScript values as they reach the plugin\<close>

text \<open>
  The configuration layers are whatever \<^verbatim>\<open>file.json()\<close> returns: the source casts the
  parsed document to \<^verbatim>\<open>Partial<NotificationConfig>\<close> and validates nothing. The values
  are therefore modelled dynamically, as JSON values. The JavaScript value
  \<^verbatim>\<open>undefined\<close> is \<open>None\<close> of \<open>json option\<close>.

  A number is held as its decimal rendering (what \<^verbatim>\<open>String(n)\<close> gives, so that zero
  is \<open>''0''\<close>): the plugin only tests numbers for truthiness and prints them.

  An object is the list of its properties in the order they were written. As in an
  object literal or a JSON document, a later entry replaces an earlier one with the
  same key, so reading a property (\<open>get_prop\<close>) takes the last entry. (JavaScript
  enumerates integer-like keys before the others; the list keeps the order of writing,
  on which no property read depends.)
\<close>

datatype json =
    JNull
  | JBool bool
  | JNum string
  | JStr string
  | JArr "json list"
  | JObj "(string \<times> json) list"

type_synonym obj = "(string \<times> json) list"

definition get_prop :: "obj \<Rightarrow> string \<Rightarrow> json option" where
  "get_prop ps k = map_of (rev ps) k"

definition digit_char :: "nat \<Rightarrow> char" where
  "digit_char d = ''0123456789'' ! (d mod 10)"

fun show_nat :: "nat \<Rightarrow> string" where
  "show_nat n =
     (if n < 10 then [digit_char n] else show_nat (n div 10) @ [digit_char (n mod 10)])"

declare show_nat.simps [simp del]

definition all_digits :: "string \<Rightarrow> bool" where
  "all_digits k = list_all (\<lambda>c. c \<in> set ''0123456789'') k"

definition index_props :: "json list \<Rightarrow> obj" where
  "index_props xs = zip (map show_nat [0 ..< length xs]) xs"

text \<open>
  The own enumerable properties of a value, which is what object spread copies: the
  properties of an object, the indexed elements of an array, the indexed characters of
  a string, and nothing for \<^verbatim>\<open>null\<close>, booleans and numbers.
\<close>

fun own_props :: "json \<Rightarrow> obj" where
  "own_props (JObj ps) = ps"
| "own_props (JArr xs) = index_props xs"
| "own_props (JStr s) = index_props (map (\<lambda>c. JStr [c]) s)"
| "own_props JNull = []"
| "own_props (JBool b) = []"
| "own_props (JNum n) = []"

text \<open>
  \<^verbatim>\<open>v?.[k]\<close> for the keys this program reads (\<^verbatim>\<open>'session.idle'\<close>,
  \<^verbatim>\<open>'enabled'\<close>, \<^verbatim>\<open>'title'\<close>, ...), none of which is an inherited property:
  \<^verbatim>\<open>undefined\<close> when \<open>v\<close> is \<^verbatim>\<open>undefined\<close> or \<^verbatim>\<open>null\<close>, the own property otherwise.
\<close>

definition opt_get :: "json option \<Rightarrow> string \<Rightarrow> json option" where
  "opt_get v k = (case v of None \<Rightarrow> None | Some j \<Rightarrow> get_prop (own_props j) k)"

text \<open>\<^verbatim>\<open>a ?? b\<close>: the right operand when the left one is \<^verbatim>\<open>undefined\<close> or \<^verbatim>\<open>null\<close>.\<close>

definition nullish :: "json option \<Rightarrow> json \<Rightarrow> json" where
  "nullish a b = (case a of None \<Rightarrow> b | Some JNull \<Rightarrow> b | Some v \<Rightarrow> v)"

text \<open>
  \<^verbatim>\<open>{ ...target, ...src }\<close> continues the object under construction: every own
  property of \<open>src\<close> is assigned in turn, an existing key keeping its place. Spreading
  \<^verbatim>\<open>undefined\<close> or \<^verbatim>\<open>null\<close> copies nothing.
\<close>

definition assign :: "('k \<times> 'v) list \<Rightarrow> ('k \<times> 'v) list \<Rightarrow> ('k \<times> 'v) list" where
  "assign target ps = fold (\<lambda>(k, v). AList.update k v) ps target"

definition spread :: "obj \<Rightarrow> json option \<Rightarrow> obj" where
  "spread target src = (case src of None \<Rightarrow> target | Some j \<Rightarrow> assign target (own_props j))"

text \<open>JavaScript truthiness, as tested by \<^verbatim>\<open>if (x)\<close>, \<^verbatim>\<open>!x\<close> and \<^verbatim>\<open>x && y\<close>.\<close>

fun truthy :: "json option \<Rightarrow> bool" where
  "truthy None = False"
| "truthy (Some JNull) = False"
| "truthy (Some (JBool b)) = b"
| "truthy (Some (JNum n)) = (n \<noteq> ''0'')"
| "truthy (Some (JStr s)) = (s \<noteq> [])"
| "truthy (Some (JArr xs)) = True"
| "truthy (Some (JObj ps)) = True"

fun join_with :: "string \<Rightarrow> string list \<Rightarrow> string" where
  "join_with sep [] = []"
| "join_with sep [s] = s"
| "join_with sep (s # t # ts) = s @ sep @ join_with sep (t # ts)"

text \<open>
  String conversion inside a template literal \<^verbatim>\<open>`${x}`\<close>: an array is its elements
  joined by commas with \<^verbatim>\<open>null\<close> printed as nothing, a plain object is
  \<^verbatim>\<open>[object Object]\<close>.
\<close>

fun to_string :: "json \<Rightarrow> string" where
  "to_string JNull = ''null''"
| "to_string (JBool b) = (if b then ''true'' else ''false'')"
| "to_string (JNum n) = n"
| "to_string (JStr s) = s"
| "to_string (JArr xs) = join_with '','' (map (\<lambda>x. if x = JNull then [] else to_string x) xs)"
| "to_string (JObj ps) = ''[object Object]''"

definition template :: "json option \<Rightarrow> string" where
  "template v = (case v of None \<Rightarrow> ''undefined'' | Some j \<Rightarrow> to_string j)"

section \<open>The configuration and its merge\<close>

text \<open>
  \<^verbatim>\<open>NotificationConfig\<close> of \<^verbatim>\<open>internals.ts\<close> and \<^verbatim>\<open>index.ts\<close>. The two top-level
  flags and the three category objects are always there (the merge builds them with an
  object literal); what they hold is dynamic, and a category object can carry any
  property a layer spreads into it.
\<close>

record NotificationEvents =
  session_idle :: obj
  permission_updated :: obj
  session_error :: obj

record NotificationConfig =
  enabled :: json
  itermIntegrationEnabled :: json
  events :: NotificationEvents

definition DEFAULT_CONFIG :: NotificationConfig where
  "DEFAULT_CONFIG = \<lparr>
     enabled = JBool True,
     itermIntegrationEnabled = JBool True,
     events = \<lparr>
       session_idle = [(''enabled'', JBool True), (''message'', JStr ''Session completed'')],
       permission_updated = [(''enabled'', JBool True), (''message'', JStr ''Permission needed'')],
       session_error = [(''enabled'', JBool True), (''message'', JStr ''Error occurred'')]
     \<rparr>
   \<rparr>"

text \<open>
  \<^verbatim>\<open>mergeConfig(defaults, user)\<close>. The argument \<open>user\<close> is an object, given by its
  properties; \<^verbatim>\<open>loadConfig\<close> only calls the merge on a truthy layer.
\<close>

definition mergeConfig :: "NotificationConfig \<Rightarrow> obj \<Rightarrow> NotificationConfig" where
  "mergeConfig defaults user = \<lparr>
     enabled = nullish (get_prop user ''enabled'') (enabled defaults),
     itermIntegrationEnabled =
       nullish (get_prop user ''itermIntegrationEnabled'') (itermIntegrationEnabled defaults),
     events = \<lparr>
       session_idle =
         spread (spread [] (Some (JObj (session_idle (events defaults)))))
           (opt_get (get_prop user ''events'') ''session.idle''),
       permission_updated =
         spread (spread [] (Some (JObj (permission_updated (events defaults)))))
           (opt_get (get_prop user ''events'') ''permission.updated''),
       session_error =
         spread (spread [] (Some (JObj (session_error (events defaults)))))
           (opt_get (get_prop user ''events'') ''session.error'')
     \<rparr>
   \<rparr>"

subsection \<open>Naming the fields of a configuration\<close>

datatype category = SessionIdle | PermissionUpdated | SessionError

fun category_id :: "category \<Rightarrow> string" where
  "category_id SessionIdle = ''session.idle''"
| "category_id PermissionUpdated = ''permission.updated''"
| "category_id SessionError = ''session.error''"

fun category_config :: "NotificationConfig \<Rightarrow> category \<Rightarrow> obj" where
  "category_config c SessionIdle = session_idle (events c)"
| "category_config c PermissionUpdated = permission_updated (events c)"
| "category_config c SessionError = session_error (events c)"

datatype field =
    Enabled
  | ItermIntegrationEnabled
  | EventEnabled category
  | EventMessage category

text \<open>
  What a layer holds for a field: \<^verbatim>\<open>user.enabled\<close>,
  \<^verbatim>\<open>user.events?.['session.idle']?.message\<close>, and so on. \<open>None\<close> is an absent field.
\<close>

fun layer_field :: "obj \<Rightarrow> field \<Rightarrow> json option" where
  "layer_field user Enabled = get_prop user ''enabled''"
| "layer_field user ItermIntegrationEnabled = get_prop user ''itermIntegrationEnabled''"
| "layer_field user (EventEnabled c) =
     opt_get (opt_get (get_prop user ''events'') (category_id c)) ''enabled''"
| "layer_field user (EventMessage c) =
     opt_get (opt_get (get_prop user ''events'') (category_id c)) ''message''"

fun config_field :: "NotificationConfig \<Rightarrow> field \<Rightarrow> json option" where
  "config_field c Enabled = Some (enabled c)"
| "config_field c ItermIntegrationEnabled = Some (itermIntegrationEnabled c)"
| "config_field c (EventEnabled k) = get_prop (category_config c k) ''enabled''"
| "config_field c (EventMessage k) = get_prop (category_config c k) ''message''"

text \<open>
  The rule in the words of the specification, for one field: the higher layer's value
  when there is one that is not \<^verbatim>\<open>null\<close>, the lower layer's value otherwise.
\<close>

definition coalesce_field :: "json option \<Rightarrow> json option \<Rightarrow> json option" where
  "coalesce_field higher lower =
     (case higher of None \<Rightarrow> lower | Some JNull \<Rightarrow> lower | Some v \<Rightarrow> Some v)"

text \<open>The rule of object spread, for one field: the higher layer's own property when it
  has one, whatever its value.\<close>

definition own_field :: "json option \<Rightarrow> json option \<Rightarrow> json option" where
  "own_field higher lower = (case higher of None \<Rightarrow> lower | Some v \<Rightarrow> Some v)"

fun nested :: "field \<Rightarrow> bool" where
  "nested Enabled = False"
| "nested ItermIntegrationEnabled = False"
| "nested (EventEnabled c) = True"
| "nested (EventMessage c) = True"

text \<open>
  What a layer does with a field. It sets the field to \<open>v\<close> when it holds \<open>v\<close> there and the
  merge takes it: any value that is not \<^verbatim>\<open>null\<close>, and inside a category also
  \<^verbatim>\<open>null\<close>. It passes the field when the merge looks further down: the field is absent,
  or it is a top-level field holding \<^verbatim>\<open>null\<close>.
\<close>

definition sets_field :: "obj \<Rightarrow> field \<Rightarrow> json \<Rightarrow> bool" where
  "sets_field user f v = (layer_field user f = Some v \<and> (nested f \<or> v \<noteq> JNull))"

definition passes_field :: "obj \<Rightarrow> field \<Rightarrow> bool" where
  "passes_field user f =
     (layer_field user f = None \<or> (layer_field user f = Some JNull \<and> \<not> nested f))"

subsection \<open>Well-typed layers and total configurations\<close>

definition all_categories :: "category list" where
  "all_categories = [SessionIdle, PermissionUpdated, SessionError]"

definition all_fields :: "field list" where
  "all_fields =
     [Enabled, ItermIntegrationEnabled] @
     map EventEnabled all_categories @ map EventMessage all_categories"

text \<open>The declared type of each field: \<^verbatim>\<open>message\<close> is a string, the others are booleans.\<close>

fun has_declared_type :: "field \<Rightarrow> json \<Rightarrow> bool" where
  "has_declared_type (EventMessage c) v = (case v of JStr s \<Rightarrow> True | _ \<Rightarrow> False)"
| "has_declared_type f v = (case v of JBool b \<Rightarrow> True | _ \<Rightarrow> False)"

text \<open>A partial layer: every field is optional, and a field that is there has its
  declared type.\<close>

definition partial_layer :: "obj \<Rightarrow> bool" where
  "partial_layer user =
     list_all (\<lambda>f. case layer_field user f of None \<Rightarrow> True | Some v \<Rightarrow> has_declared_type f v)
       all_fields"

text \<open>A total configuration: every field is there and has its declared type.\<close>

definition total_config :: "NotificationConfig \<Rightarrow> bool" where
  "total_config c =
     list_all (\<lambda>f. case config_field c f of None \<Rightarrow> False | Some v \<Rightarrow> has_declared_type f v)
       all_fields"

definition messages_nonempty :: "NotificationConfig \<Rightarrow> bool" where
  "messages_nonempty c =
     list_all (\<lambda>k. config_field c (EventMessage k) \<noteq> Some (JStr [])) all_categories"

definition sets_no_empty_message :: "obj \<Rightarrow> bool" where
  "sets_no_empty_message user =
     list_all (\<lambda>k. layer_field user (EventMessage k) \<noteq> Some (JStr [])) all_categories"

subsection \<open>The configuration as \<^verbatim>\<open>JSON.stringify\<close> sees it\<close>

definition events_json :: "NotificationEvents \<Rightarrow> obj" where
  "events_json e =
     [(''session.idle'', JObj (session_idle e)),
      (''permission.updated'', JObj (permission_updated e)),
      (''session.error'', JObj (session_error e))]"

definition config_json :: "NotificationConfig \<Rightarrow> json" where
  "config_json c =
     JObj [(''enabled'', enabled c),
           (''itermIntegrationEnabled'', itermIntegrationEnabled c),
           (''events'', JObj (events_json (events c)))]"

definition hex_digit :: "nat \<Rightarrow> char" where
  "hex_digit d = ''0123456789abcdef'' ! (d mod 16)"

definition backslash :: char where
  "backslash = CHR 0x5C"

definition dquote :: char where
  "dquote = CHR 0x22"

definition newline :: char where
  "newline = CHR 0x0A"

definition quote_char :: "char \<Rightarrow> string" where
  "quote_char c =
     (if c = CHR 0x08 then [backslash, CHR ''b'']
      else if c = CHR 0x09 then [backslash, CHR ''t'']
      else if c = CHR 0x0A then [backslash, CHR ''n'']
      else if c = CHR 0x0C then [backslash, CHR ''f'']
      else if c = CHR 0x0D then [backslash, CHR ''r'']
      else if c = dquote then [backslash, dquote]
      else if c = backslash then [backslash, backslash]
      else if (of_char c :: nat) < 32
        then [backslash, CHR ''u'', CHR ''0'', CHR ''0'',
              hex_digit (of_char c div 16), hex_digit (of_char c mod 16)]
      else [c])"

definition quote_json_string :: "string \<Rightarrow> string" where
  "quote_json_string s = [dquote] @ concat (map quote_char s) @ [dquote]"

text \<open>
  \<^verbatim>\<open>JSON.stringify(v, null, 2)\<close>, at the indentation \<open>ind\<close>: members one per line, two more
  spaces per level, \<^verbatim>\<open>": "\<close> after a key, \<^verbatim>\<open>{}\<close> and \<^verbatim>\<open>[]\<close> when empty.
\<close>

fun stringify_at :: "string \<Rightarrow> json \<Rightarrow> string" where
  "stringify_at ind JNull = ''null''"
| "stringify_at ind (JBool b) = (if b then ''true'' else ''false'')"
| "stringify_at ind (JNum n) = n"
| "stringify_at ind (JStr s) = quote_json_string s"
| "stringify_at ind (JArr xs) =
     (if xs = [] then ''[]''
      else ''['' @ [newline] @ (ind @ ''  '') @
           join_with ('','' @ [newline] @ (ind @ ''  ''))
             (map (stringify_at (ind @ ''  '')) xs) @
           [newline] @ ind @ '']'')"
| "stringify_at ind (JObj ps) =
     (if ps = [] then ''{}''
      else ''{'' @ [newline] @ (ind @ ''  '') @
           join_with ('','' @ [newline] @ (ind @ ''  ''))
             (map (\<lambda>(k, s). quote_json_string k @ '': '' @ s)
                (assign [] (map (\<lambda>(k, v). (k, stringify_at (ind @ ''  '') v)) ps))) @
           [newline] @ ind @ ''}'')"

definition stringify_pretty :: "json \<Rightarrow> string" where
  "stringify_pretty v = stringify_at [] v"

section \<open>The world outside: files, environment, standard output\<close>

text \<open>
  The file system, the environment and the output stream are collaborators of the
  plugin. They are modelled as an explicit state:
  \<^item> \<open>files\<close> maps the path of a regular file to its text, \<open>dirs\<close> is the set of
    directories;
  \<^item> \<open>io_log\<close> records every call the plugin makes to the file system and to the
    host's client, in order;
  \<^item> \<open>io_fails n c\<close> says whether the file-system call \<open>c\<close>, made as call number \<open>n\<close>,
    fails with an I/O error (permission denied, disk full, a file in the way, ...).
    A failed call changes nothing;
  \<^item> \<open>parse_json\<close> is the runtime's JSON reader, \<open>None\<close> standing for a syntax error;
  \<^item> \<open>homedir\<close> is what \<^verbatim>\<open>os.homedir()\<close> returns;
  \<^item> \<open>stdout\<close> is the list of chunks written to standard output.
\<close>

datatype io_call =
    Exists string
  | ReadJson string
  | Mkdir json
  | Write string string
  | PathGet
  | SessionGet "json option"

datatype js_error = IOError | SyntaxError | TypeError | Rejected

record world =
  files :: "string \<rightharpoonup> string"
  dirs :: "string set"
  env :: "string \<rightharpoonup> string"
  stdout :: "string list"
  io_log :: "io_call list"
  io_fails :: "nat \<Rightarrow> io_call \<Rightarrow> bool"
  parse_json :: "string \<Rightarrow> json option"
  homedir :: string

definition log_call :: "io_call \<Rightarrow> world \<Rightarrow> world" where
  "log_call c w = w\<lparr>io_log := io_log w @ [c]\<rparr>"

definition call_fails :: "io_call \<Rightarrow> world \<Rightarrow> bool" where
  "call_fails c w = io_fails w (length (io_log w)) c"


text \<open>\<^verbatim>\<open>await Bun.file(path).exists()\<close>: whether a regular file is there.\<close>

definition file_exists :: "string \<Rightarrow> world \<Rightarrow> (js_error + bool) \<times> world" where
  "file_exists path w =
     (if call_fails (Exists path) w then (Inl IOError, log_call (Exists path) w)
      else (Inr (files w path \<noteq> None), log_call (Exists path) w))"

text \<open>\<^verbatim>\<open>await Bun.file(path).json()\<close>: the parsed content, or an error.\<close>

definition file_json :: "string \<Rightarrow> world \<Rightarrow> (js_error + json) \<times> world" where
  "file_json path w =
     (if call_fails (ReadJson path) w then (Inl IOError, log_call (ReadJson path) w)
      else case files w path of
        None \<Rightarrow> (Inl IOError, log_call (ReadJson path) w)
      | Some text \<Rightarrow>
          (case parse_json w text of
             None \<Rightarrow> (Inl SyntaxError, log_call (ReadJson path) w)
           | Some v \<Rightarrow> (Inr v, log_call (ReadJson path) w)))"

text \<open>The directory itself and every directory above it, outermost first.\<close>

fun dir_chain_from :: "string \<Rightarrow> string \<Rightarrow> string list" where
  "dir_chain_from seen [] = [seen]"
| "dir_chain_from seen (c # cs) =
     (if c = CHR ''/'' \<and> seen \<noteq> [] then seen # dir_chain_from (seen @ [c]) cs
      else dir_chain_from (seen @ [c]) cs)"

definition dir_chain :: "string \<Rightarrow> string list" where
  "dir_chain path = dir_chain_from [] path"

text \<open>
  \<^verbatim>\<open>await mkdir(dir, { recursive: true })\<close>: a type error when the argument is not a
  string; otherwise, unless the call fails, the directory and the missing ones above it
  are there afterwards.
\<close>

definition mkdir_recursive :: "json \<Rightarrow> world \<Rightarrow> (js_error + unit) \<times> world" where
  "mkdir_recursive dir w =
     (case dir of
        JStr path \<Rightarrow>
          (if call_fails (Mkdir dir) w
           then (Inl IOError, log_call (Mkdir dir) w)
           else (Inr (), (log_call (Mkdir dir) w)\<lparr>dirs := dirs w \<union> set (dir_chain path)\<rparr>))
      | _ \<Rightarrow> (Inl TypeError, log_call (Mkdir dir) w))"

text \<open>\<^verbatim>\<open>await Bun.write(path, text)\<close>: unless the call fails, the file holds the text
  afterwards.\<close>

definition bun_write :: "string \<Rightarrow> string \<Rightarrow> world \<Rightarrow> (js_error + unit) \<times> world" where
  "bun_write path text w =
     (if call_fails (Write path text) w
      then (Inl IOError, log_call (Write path text) w)
      else (Inr (), (log_call (Write path text) w)\<lparr>files := (files w)(path \<mapsto> text)\<rparr>))"

text \<open>\<^verbatim>\<open>process.stdout.write(chunk)\<close>.\<close>

definition stdout_write :: "string \<Rightarrow> world \<Rightarrow> world" where
  "stdout_write chunk w = w\<lparr>stdout := stdout w @ [chunk]\<rparr>"

section \<open>Loading the configuration\<close>

text \<open>\<^verbatim>\<open>loadConfigFile(configPath)\<close>: \<^verbatim>\<open>undefined\<close> when the file does not exist or
  anything inside the \<^verbatim>\<open>try\<close> throws.\<close>

definition loadConfigFile :: "string \<Rightarrow> world \<Rightarrow> json option \<times> world" where
  "loadConfigFile configPath w =
     (case file_exists configPath w of
        (Inl e, w1) \<Rightarrow> (None, w1)
      | (Inr False, w1) \<Rightarrow> (None, w1)
      | (Inr True, w1) \<Rightarrow>
          (case file_json configPath w1 of
             (Inl e, w2) \<Rightarrow> (None, w2)
           | (Inr v, w2) \<Rightarrow> (Some v, w2)))"

text \<open>
  \<^verbatim>\<open>if (layer) { config = mergeConfig(config, layer); }\<close>. The merge reads named
  properties of the layer; a truthy layer that is no object (a number, \<^verbatim>\<open>true\<close>, a
  string, an array) is passed as its own properties.
\<close>

definition merge_if_present :: "NotificationConfig \<Rightarrow> json option \<Rightarrow> NotificationConfig" where
  "merge_if_present config layer =
     (case layer of
        None \<Rightarrow> config
      | Some v \<Rightarrow> if truthy (Some v) then mergeConfig config (own_props v) else config)"

text \<open>The text written for a missing global file:
  \<^verbatim>\<open>JSON.stringify(DEFAULT_CONFIG, null, 2) + '\n'\<close>.\<close>

definition default_config_text :: string where
  "default_config_text = stringify_pretty (config_json DEFAULT_CONFIG) @ [newline]"

subsection \<open>\<^verbatim>\<open>internals.ts\<close>: the global directory is under the home directory\<close>

definition getGlobalConfigDir :: "world \<Rightarrow> string" where
  "getGlobalConfigDir w = homedir w @ ''/.config/opencode''"

definition ensureGlobalConfig :: "world \<Rightarrow> world" where
  "ensureGlobalConfig w =
     (let globalConfigDir = getGlobalConfigDir w;
          globalConfigPath = globalConfigDir @ ''/notification.json''
      in case file_exists globalConfigPath w of
           (Inl e, w1) \<Rightarrow> w1
         | (Inr True, w1) \<Rightarrow> w1
         | (Inr False, w1) \<Rightarrow>
             (case mkdir_recursive (JStr globalConfigDir) w1 of
                (Inl e, w2) \<Rightarrow> w2
              | (Inr u, w2) \<Rightarrow>
                  (case bun_write globalConfigPath default_config_text w2 of
                     (Inl e, w3) \<Rightarrow> w3
                   | (Inr u, w3) \<Rightarrow> w3)))"

definition loadConfig :: "string \<Rightarrow> world \<Rightarrow> NotificationConfig \<times> world" where
  "loadConfig directory w =
     (let globalConfigPath = getGlobalConfigDir w @ ''/notification.json'';
          projectConfigPath = directory @ ''/.opencode/notification.json'';
          (globalConfig, w1) =
             (if globalConfigPath \<noteq> [] then loadConfigFile globalConfigPath w else (None, w));
          (projectConfig, w2) = loadConfigFile projectConfigPath w1
      in (merge_if_present (merge_if_present DEFAULT_CONFIG globalConfig) projectConfig, w2))"

subsection \<open>\<^verbatim>\<open>index.ts\<close>: the global directory is asked of the host\<close>

text \<open>
  The host's client, as far as the plugin uses it: \<open>path_get\<close> is the outcome of
  \<^verbatim>\<open>await client.path.get()\<close> and \<open>session_get id\<close> that of
  \<^verbatim>\<open>await client.session.get({ path: { id } })\<close>; each is a rejection or the
  \<^verbatim>\<open>data\<close> of the response.
\<close>

record client =
  path_get :: "js_error + json option"
  session_get :: "json option \<Rightarrow> js_error + json option"

definition getGlobalConfigDir_client :: "client \<Rightarrow> world \<Rightarrow> (js_error + json) \<times> world" where
  "getGlobalConfigDir_client cl w =
     (case path_get cl of
        Inl e \<Rightarrow> (Inl e, log_call PathGet w)
      | Inr data \<Rightarrow> (Inr (nullish (opt_get data ''config'') (JStr [])), log_call PathGet w))"

definition ensureGlobalConfig_client :: "client \<Rightarrow> world \<Rightarrow> (js_error + unit) \<times> world" where
  "ensureGlobalConfig_client cl w =
     (case getGlobalConfigDir_client cl w of
        (Inl e, w0) \<Rightarrow> (Inl e, w0)
      | (Inr globalConfigDir, w0) \<Rightarrow>
          if \<not> truthy (Some globalConfigDir) then (Inr (), w0)
          else
            (let globalConfigPath = to_string globalConfigDir @ ''/notification.json''
             in case file_exists globalConfigPath w0 of
                  (Inl e, w1) \<Rightarrow> (Inr (), w1)
                | (Inr True, w1) \<Rightarrow> (Inr (), w1)
                | (Inr False, w1) \<Rightarrow>
                    (case mkdir_recursive globalConfigDir w1 of
                       (Inl e, w2) \<Rightarrow> (Inr (), w2)
                     | (Inr u, w2) \<Rightarrow>
                         (case bun_write globalConfigPath default_config_text w2 of
                            (Inl e, w3) \<Rightarrow> (Inr (), w3)
                          | (Inr u, w3) \<Rightarrow> (Inr (), w3)))))"

definition loadConfig_client ::
  "client \<Rightarrow> string \<Rightarrow> world \<Rightarrow> (js_error + NotificationConfig) \<times> world" where
  "loadConfig_client cl directory w =
     (case getGlobalConfigDir_client cl w of
        (Inl e, w0) \<Rightarrow> (Inl e, w0)
      | (Inr globalConfigDir, w0) \<Rightarrow>
          (let globalConfigPath =
                 (if truthy (Some globalConfigDir)
                  then to_string globalConfigDir @ ''/notification.json'' else []);
               projectConfigPath = directory @ ''/.opencode/notification.json'';
               (globalConfig, w1) =
                  (if globalConfigPath \<noteq> [] then loadConfigFile globalConfigPath w0
                   else (None, w0));
               (projectConfig, w2) = loadConfigFile projectConfigPath w1
           in (Inr (merge_if_present (merge_if_present DEFAULT_CONFIG globalConfig) projectConfig),
               w2)))"

section \<open>Dispatching a notification\<close>

definition isITerm2 :: "world \<Rightarrow> bool" where
  "isITerm2 w = (env w ''TERM_PROGRAM'' = Some ''iTerm.app'')"

definition ESC :: char where
  "ESC = CHR 0x1B"

definition BEL :: char where
  "BEL = CHR 0x07"

text \<open>\<^verbatim>\<open>notify({ title, message, itermIntegrationEnabled })\<close>.\<close>

definition notify :: "json option \<Rightarrow> json option \<Rightarrow> json option \<Rightarrow> world \<Rightarrow> world" where
  "notify title message itermEnabled w =
     (let fullMessage = template title @ '' - '' @ template message
      in if truthy itermEnabled \<and> isITerm2 w
         then stdout_write ([ESC] @ '']9;'' @ fullMessage @ [BEL]) w
         else stdout_write [BEL] w)"

record Event =
  event_type :: string
  properties :: obj

text \<open>The title of a session as the handler resolves it: \<^verbatim>\<open>'Session'\<close> unless the
  lookup returns and \<^verbatim>\<open>response.data?.title\<close> is truthy.\<close>

definition session_title :: "js_error + json option \<Rightarrow> json" where
  "session_title response =
     (case response of
        Inl e \<Rightarrow> JStr ''Session''
      | Inr data \<Rightarrow>
          (case opt_get data ''title'' of
             None \<Rightarrow> JStr ''Session''
           | Some t \<Rightarrow> if truthy (Some t) then t else JStr ''Session''))"

text \<open>The \<^verbatim>\<open>event\<close> hook that \<^verbatim>\<open>NotificationPlugin\<close> returns, closed over the client and
  the loaded configuration.\<close>

text \<open>\<^verbatim>\<open>await client.session.get({ path: { id: sessionID } })\<close>.\<close>

definition session_lookup ::
  "client \<Rightarrow> json option \<Rightarrow> world \<Rightarrow> (js_error + json option) \<times> world" where
  "session_lookup cl sessionID w = (session_get cl sessionID, log_call (SessionGet sessionID) w)"

definition event :: "client \<Rightarrow> NotificationConfig \<Rightarrow> Event \<Rightarrow> world \<Rightarrow> world" where
  "event cl config ev w =
     (if \<not> truthy (Some (enabled config)) then w
      else if event_type ev = ''session.idle'' then
        (let eventConfig = session_idle (events config)
         in if \<not> truthy (get_prop eventConfig ''enabled'') then w
            else
              (let sessionID = get_prop (properties ev) ''sessionID'';
                   (response, w1) = session_lookup cl sessionID w;
                   title = session_title response
               in notify (Some (JStr ''OpenCode''))
                    (Some (JStr (template (get_prop eventConfig ''message'') @ '': '' @
                                 to_string title)))
                    (Some (itermIntegrationEnabled config)) w1))
      else if event_type ev = ''permission.updated'' then
        (let eventConfig = permission_updated (events config)
         in if \<not> truthy (get_prop eventConfig ''enabled'') then w
            else
              (let permissionTitle = nullish (get_prop (properties ev) ''title'') (JStr ''Unknown'')
               in notify (Some (JStr ''OpenCode''))
                    (Some (JStr (template (get_prop eventConfig ''message'') @ '': '' @
                                 to_string permissionTitle)))
                    (Some (itermIntegrationEnabled config)) w))
      else if event_type ev = ''session.error'' then
        (let eventConfig = session_error (events config)
         in if \<not> truthy (get_prop eventConfig ''enabled'') then w
            else notify (Some (JStr ''OpenCode'')) (get_prop eventConfig ''message'')
                   (Some (itermIntegrationEnabled config)) w)
      else w)"

text \<open>Plugin start-up: make sure the global file exists, then load the configuration
  that the hook keeps for the session.\<close>

definition NotificationPlugin :: "string \<Rightarrow> world \<Rightarrow> NotificationConfig \<times> world" where
  "NotificationPlugin directory w = loadConfig directory (ensureGlobalConfig w)"

definition NotificationPlugin_client ::
  "client \<Rightarrow> string \<Rightarrow> world \<Rightarrow> (js_error + NotificationConfig) \<times> world" where
  "NotificationPlugin_client cl directory w =
     (case ensureGlobalConfig_client cl w of
        (Inl e, w1) \<Rightarrow> (Inl e, w1)
      | (Inr u, w1) \<Rightarrow> loadConfig_client cl directory w1)"

section \<open>Fixtures\<close>

text \<open>
  Concrete worlds and clients in the style of the repository's tests, for evaluating
  the functions above: no call fails unless said so, the home directory is
  \<^verbatim>\<open>/home/user\<close>, and the JSON reader knows the two documents the tests write.
\<close>

definition quoted :: "string \<Rightarrow> string" where
  "quoted s = [CHR 0x22] @ s @ [CHR 0x22]"


definition test_parse :: "string \<Rightarrow> json option" where
  "test_parse text =
     (if text = ''{}'' then Some (JObj [])
      else if text = ''{'' @ quoted ''enabled'' @ '':false}''
        then Some (JObj [(''enabled'', JBool False)])
      else None)"

definition test_world ::
  "(string \<times> string) list \<Rightarrow> string option \<Rightarrow> (nat \<Rightarrow> io_call \<Rightarrow> bool) \<Rightarrow> world" where
  "test_world fs term_program fails = \<lparr>
     files = map_of fs,
     dirs = {},
     env = (case term_program of None \<Rightarrow> Map.empty | Some t \<Rightarrow> [''TERM_PROGRAM'' \<mapsto> t]),
     stdout = [],
     io_log = [],
     io_fails = fails,
     parse_json = test_parse,
     homedir = ''/home/user''
   \<rparr>"

definition never_fails :: "nat \<Rightarrow> io_call \<Rightarrow> bool" where
  "never_fails n c = False"

definition fails_at :: "nat \<Rightarrow> nat \<Rightarrow> io_call \<Rightarrow> bool" where
  "fails_at k n c = (n = k)"

definition test_client :: "json option \<Rightarrow> js_error + json option \<Rightarrow> client" where
  "test_client path_data session_response = \<lparr>
     path_get = Inr path_data,
     session_get = (\<lambda>sessionID. session_response)
   \<rparr>"


section \<open>Properties of the merge\<close>

lemma map_of_assign:
  "map_of (assign target ps) = map_of target ++ map_of (rev ps)"
proof (induction ps arbitrary: target)
  case Nil
  show ?case by (simp add: assign_def)
next
  case (Cons p ps)
  obtain k v where p: "p = (k, v)" by (cases p)
  have "assign target (p # ps) = assign (AList.update k v target) ps"
    by (simp add: assign_def p)
  then show ?case
    using Cons.IH [of "AList.update k v target"]
    by (simp add: p update_conv' map_add_upd_left map_add_def fun_eq_iff split: option.splits)
qed

lemma distinct_assign:
  "distinct (map fst target) \<Longrightarrow> distinct (map fst (assign target ps))"
proof (induction ps arbitrary: target)
  case Nil
  then show ?case by (simp add: assign_def)
next
  case (Cons p ps)
  obtain k v where p: "p = (k, v)" by (cases p)
  have "assign target (p # ps) = assign (AList.update k v target) ps"
    by (simp add: assign_def p)
  then show ?case
    using Cons.IH [of "AList.update k v target"] Cons.prems
    by (simp add: distinct_update)
qed

lemma distinct_spread:
  "distinct (map fst target) \<Longrightarrow> distinct (map fst (spread target src))"
  by (simp add: spread_def distinct_assign split: option.splits)

lemma map_of_rev_distinct:
  "distinct (map fst ps) \<Longrightarrow> map_of (rev ps) = map_of ps"
  by (subst map_of_inject_set) (simp_all add: rev_map [symmetric])

lemma get_prop_distinct:
  "distinct (map fst ps) \<Longrightarrow> get_prop ps k = map_of ps k"
  by (simp add: get_prop_def map_of_rev_distinct)

lemma get_prop_spread:
  assumes "distinct (map fst target)"
  shows "get_prop (spread target src) k = own_field (opt_get src k) (get_prop target k)"
proof (cases src)
  case None
  then show ?thesis by (simp add: spread_def opt_get_def own_field_def)
next
  case (Some j)
  have "get_prop (spread target src) k = map_of (assign target (own_props j)) k"
    using assms Some by (simp add: spread_def get_prop_distinct distinct_assign)
  also have "\<dots> = (map_of target ++ map_of (rev (own_props j))) k"
    by (simp add: map_of_assign)
  finally show ?thesis
    using assms Some
    by (simp add: opt_get_def own_field_def get_prop_def map_of_rev_distinct map_add_def
        split: option.splits)
qed

lemma get_prop_object_literal:
  "get_prop (spread (spread [] (Some (JObj d))) u) k = own_field (opt_get u k) (get_prop d k)"
proof -
  have d: "distinct (map fst (spread [] (Some (JObj d))))"
    by (rule distinct_spread) simp
  have "get_prop (spread [] (Some (JObj d))) k = get_prop d k"
    by (subst get_prop_spread) (simp_all add: opt_get_def own_field_def get_prop_def split: option.splits)
  then show ?thesis
    by (simp add: get_prop_spread [OF d])
qed

lemma digit_char_in: "digit_char d \<in> set ''0123456789''"
proof -
  have "d mod 10 < length ''0123456789''" by simp
  then show ?thesis
    unfolding digit_char_def by (rule nth_mem)
qed

lemma all_digits_show_nat: "all_digits (show_nat n)"
proof (induction n rule: show_nat.induct)
  case (1 n)
  show ?case
  proof (cases "n < 10")
    case True
    then show ?thesis
      using digit_char_in [of n] by (subst show_nat.simps) (simp add: all_digits_def)
  next
    case False
    then show ?thesis
      using "1.IH" digit_char_in [of "n mod 10"]
      by (subst show_nat.simps) (simp add: all_digits_def)
  qed
qed

lemma index_key_digits:
  assumes "(k, v) \<in> set (index_props xs)"
  shows "all_digits k"
proof -
  from assms obtain i where "k = show_nat i"
    by (auto simp: index_props_def in_set_zip)
  then show ?thesis
    by (simp add: all_digits_show_nat)
qed

lemma get_prop_index_props:
  assumes "\<not> all_digits k"
  shows "get_prop (index_props xs) k = None"
proof (rule ccontr)
  assume "get_prop (index_props xs) k \<noteq> None"
  then obtain v where "map_of (rev (index_props xs)) k = Some v"
    by (auto simp: get_prop_def)
  then have "(k, v) \<in> set (index_props xs)"
    by (auto dest: map_of_SomeD)
  then show False
    using index_key_digits assms by blast
qed

lemma get_prop_non_object:
  assumes "\<And>ps. v \<noteq> JObj ps" and "\<not> all_digits k"
  shows "get_prop (own_props v) k = None"
proof (cases v)
  case (JObj ps)
  then show ?thesis using assms(1) by blast
qed (simp_all add: get_prop_index_props assms(2), simp_all add: get_prop_def)

text \<open>A truthy layer that is no object (a number, \<^verbatim>\<open>true\<close>, a string, an array) sets
  no field: the keys of a string or an array are indices.\<close>

lemma non_object_layer_sets_nothing:
  assumes "\<And>ps. v \<noteq> JObj ps"
  shows "layer_field (own_props v) f = None"
proof -
  have "\<not> all_digits ''enabled''" "\<not> all_digits ''itermIntegrationEnabled''"
    "\<not> all_digits ''events''"
    by (simp_all add: all_digits_def)
  then show ?thesis
    using assms by (cases f) (simp_all add: get_prop_non_object opt_get_def)
qed

lemma config_field_mergeConfig:
  "config_field (mergeConfig lower higher) f =
     (if nested f then own_field (layer_field higher f) (config_field lower f)
      else coalesce_field (layer_field higher f) (config_field lower f))"
proof (cases f)
  case Enabled
  then show ?thesis
    by (simp add: mergeConfig_def nullish_def coalesce_field_def split: option.splits json.splits)
next
  case ItermIntegrationEnabled
  then show ?thesis
    by (simp add: mergeConfig_def nullish_def coalesce_field_def split: option.splits json.splits)
next
  case (EventEnabled c)
  then show ?thesis
    by (cases c) (simp_all add: mergeConfig_def get_prop_object_literal)
next
  case (EventMessage c)
  then show ?thesis
    by (cases c) (simp_all add: mergeConfig_def get_prop_object_literal)
qed

lemma set_all_categories: "set all_categories = UNIV"
proof -
  have "c \<in> set all_categories" for c
    by (cases c) (simp_all add: all_categories_def)
  then show ?thesis by blast
qed

lemma set_all_fields: "set all_fields = UNIV"
proof -
  have "f \<in> set all_fields" for f
  proof (cases f)
    case (EventEnabled c)
    then show ?thesis by (cases c) (simp_all add: all_fields_def all_categories_def)
  next
    case (EventMessage c)
    then show ?thesis by (cases c) (simp_all add: all_fields_def all_categories_def)
  qed (simp_all add: all_fields_def)
  then show ?thesis by blast
qed

lemma partial_layer_iff:
  "partial_layer user \<longleftrightarrow>
     (\<forall>f v. layer_field user f = Some v \<longrightarrow> has_declared_type f v)"
  by (auto simp: partial_layer_def list_all_iff set_all_fields split: option.splits)

lemma total_config_iff:
  "total_config c \<longleftrightarrow> (\<forall>f. \<exists>v. config_field c f = Some v \<and> has_declared_type f v)"
proof -
  have "(case config_field c f of None \<Rightarrow> False | Some v \<Rightarrow> has_declared_type f v)
      \<longleftrightarrow> (\<exists>v. config_field c f = Some v \<and> has_declared_type f v)" for f
    by (cases "config_field c f") simp_all
  then show ?thesis
    by (simp add: total_config_def list_all_iff set_all_fields)
qed

lemma messages_nonempty_iff:
  "messages_nonempty c \<longleftrightarrow> (\<forall>k. config_field c (EventMessage k) \<noteq> Some (JStr []))"
  by (simp add: messages_nonempty_def list_all_iff set_all_categories)

lemma sets_no_empty_message_iff:
  "sets_no_empty_message user \<longleftrightarrow> (\<forall>k. layer_field user (EventMessage k) \<noteq> Some (JStr []))"
  by (simp add: sets_no_empty_message_def list_all_iff set_all_categories)

lemma declared_type_not_null: "has_declared_type f v \<Longrightarrow> v \<noteq> JNull"
  by (cases f) auto

lemma total_config_DEFAULT: "total_config DEFAULT_CONFIG"
  by (simp add: total_config_def all_fields_def all_categories_def DEFAULT_CONFIG_def
      get_prop_def)

lemma messages_nonempty_DEFAULT: "messages_nonempty DEFAULT_CONFIG"
  by (simp add: messages_nonempty_def all_categories_def DEFAULT_CONFIG_def get_prop_def)

lemma total_config_mergeConfig:
  assumes "total_config lower" and "partial_layer higher"
  shows "total_config (mergeConfig lower higher)"
  unfolding total_config_iff
proof
  fix f
  obtain v where v: "config_field lower f = Some v" "has_declared_type f v"
    using assms(1) unfolding total_config_iff by blast
  show "\<exists>x. config_field (mergeConfig lower higher) f = Some x \<and> has_declared_type f x"
  proof (cases "layer_field higher f")
    case None
    then show ?thesis
      using v by (simp add: config_field_mergeConfig own_field_def coalesce_field_def)
  next
    case (Some u)
    then have u: "has_declared_type f u"
      using assms(2) unfolding partial_layer_iff by blast
    then have "u \<noteq> JNull" by (rule declared_type_not_null)
    then have "config_field (mergeConfig lower higher) f = Some u"
      using Some
      by (cases u) (simp_all add: config_field_mergeConfig own_field_def coalesce_field_def)
    then show ?thesis
      using u by simp
  qed
qed

lemma messages_nonempty_mergeConfig:
  assumes "messages_nonempty lower" and "sets_no_empty_message higher"
  shows "messages_nonempty (mergeConfig lower higher)"
  unfolding messages_nonempty_iff
proof
  fix k
  have l: "config_field lower (EventMessage k) \<noteq> Some (JStr [])"
    using assms(1) unfolding messages_nonempty_iff by blast
  have h: "layer_field higher (EventMessage k) \<noteq> Some (JStr [])"
    using assms(2) unfolding sets_no_empty_message_iff by blast
  have "config_field (mergeConfig lower higher) (EventMessage k)
      = own_field (layer_field higher (EventMessage k)) (config_field lower (EventMessage k))"
    by (subst config_field_mergeConfig) simp
  then show "config_field (mergeConfig lower higher) (EventMessage k) \<noteq> Some (JStr [])"
    using l h
    by (cases "layer_field higher (EventMessage k)") (simp_all add: own_field_def)
qed

lemma default_message_nonempty:
  "config_field DEFAULT_CONFIG (EventMessage k) \<noteq> Some (JStr [])"
  using messages_nonempty_DEFAULT unfolding messages_nonempty_iff by blast

lemma merged_message:
  "config_field (mergeConfig (mergeConfig lower L1) L2) (EventMessage k) =
     own_field (layer_field L2 (EventMessage k))
       (own_field (layer_field L1 (EventMessage k)) (config_field lower (EventMessage k)))"
  by (simp only: config_field_mergeConfig nested.simps if_True)

lemma merged_message_empty_iff:
  "config_field (mergeConfig (mergeConfig DEFAULT_CONFIG L1) L2) (EventMessage k) = Some (JStr [])
   \<longleftrightarrow> layer_field L2 (EventMessage k) = Some (JStr [])
       \<or> (layer_field L2 (EventMessage k) = None \<and> layer_field L1 (EventMessage k) = Some (JStr []))"
  unfolding merged_message
  using default_message_nonempty [of k]
  by (cases "layer_field L2 (EventMessage k)"; cases "layer_field L1 (EventMessage k)")
    (simp_all add: own_field_def del: layer_field.simps config_field.simps)

section \<open>The claims about the merge\<close>

text \<open>
  C1 (merge totality), as amended. For all partial layers \<open>L1\<close> and \<open>L2\<close>, the empty layer
  included, \<open>mergeConfig (mergeConfig DEFAULT_CONFIG L1) L2\<close> is a total configuration:
  its \<^verbatim>\<open>events\<close> object has exactly the three keys \<^verbatim>\<open>session.idle\<close>,
  \<^verbatim>\<open>permission.updated\<close> and \<^verbatim>\<open>session.error\<close>, both top-level flags and every
  category's \<^verbatim>\<open>enabled\<close> are booleans and every category's \<^verbatim>\<open>message\<close> is a string.
  The merged message of a category is empty exactly when \<open>L2\<close> sets it to the empty string,
  or \<open>L2\<close> does not set it and \<open>L1\<close> sets it to the empty string; so the messages are all
  non-empty when neither layer sets a message to the empty string.
\<close>

theorem merge_totality:
  assumes "partial_layer L1" and "partial_layer L2"
  shows "total_config (mergeConfig (mergeConfig DEFAULT_CONFIG L1) L2)
    \<and> map fst (events_json (events (mergeConfig (mergeConfig DEFAULT_CONFIG L1) L2)))
        = map category_id all_categories
    \<and> (config_field (mergeConfig (mergeConfig DEFAULT_CONFIG L1) L2) (EventMessage k)
          = Some (JStr [])
        \<longleftrightarrow> layer_field L2 (EventMessage k) = Some (JStr [])
            \<or> (layer_field L2 (EventMessage k) = None
                \<and> layer_field L1 (EventMessage k) = Some (JStr [])))
    \<and> (sets_no_empty_message L1 \<and> sets_no_empty_message L2
        \<longrightarrow> messages_nonempty (mergeConfig (mergeConfig DEFAULT_CONFIG L1) L2))"
proof (intro conjI impI)
  show "config_field (mergeConfig (mergeConfig DEFAULT_CONFIG L1) L2) (EventMessage k)
          = Some (JStr [])
        \<longleftrightarrow> layer_field L2 (EventMessage k) = Some (JStr [])
            \<or> (layer_field L2 (EventMessage k) = None
                \<and> layer_field L1 (EventMessage k) = Some (JStr []))"
    by (rule merged_message_empty_iff)
  show "total_config (mergeConfig (mergeConfig DEFAULT_CONFIG L1) L2)"
    using assms by (intro total_config_mergeConfig total_config_DEFAULT)
  show "map fst (events_json (events (mergeConfig (mergeConfig DEFAULT_CONFIG L1) L2)))
      = map category_id all_categories"
    by (simp add: events_json_def all_categories_def)
  show "messages_nonempty (mergeConfig (mergeConfig DEFAULT_CONFIG L1) L2)"
    if "sets_no_empty_message L1 \<and> sets_no_empty_message L2"
    using that by (intro messages_nonempty_mergeConfig messages_nonempty_DEFAULT) simp_all
qed

text \<open>The amended statement at the layers of the repository's own test: a global layer
  that switches the plugin and the iTerm2 integration off, a project layer that
  switches the plugin on and renames one message. And at a global layer that empties
  the message of \<^verbatim>\<open>session.idle\<close> under a project layer that sets it again: the merged
  message is not empty.\<close>

theorem merge_totality_witness:
  "partial_layer [(''itermIntegrationEnabled'', JBool False), (''enabled'', JBool False)]
   \<and> partial_layer [(''enabled'', JBool True),
        (''events'', JObj [(''session.idle'', JObj [(''message'', JStr ''Done'')])])]
   \<and> total_config (mergeConfig (mergeConfig DEFAULT_CONFIG
        [(''itermIntegrationEnabled'', JBool False), (''enabled'', JBool False)])
        [(''enabled'', JBool True),
         (''events'', JObj [(''session.idle'', JObj [(''message'', JStr ''Done'')])])])
   \<and> messages_nonempty (mergeConfig (mergeConfig DEFAULT_CONFIG
        [(''itermIntegrationEnabled'', JBool False), (''enabled'', JBool False)])
        [(''enabled'', JBool True),
         (''events'', JObj [(''session.idle'', JObj [(''message'', JStr ''Done'')])])])
   \<and> partial_layer [(''events'', JObj [(''session.idle'', JObj [(''message'', JStr [])])])]
   \<and> partial_layer [(''events'', JObj [(''session.idle'', JObj [(''message'', JStr ''x'')])])]
   \<and> config_field (mergeConfig (mergeConfig DEFAULT_CONFIG
        [(''events'', JObj [(''session.idle'', JObj [(''message'', JStr [])])])])
        [(''events'', JObj [(''session.idle'', JObj [(''message'', JStr ''x'')])])])
        (EventMessage SessionIdle) \<noteq> Some (JStr [])"
proof -
  let ?e = "[(''events'', JObj [(''session.idle'', JObj [(''message'', JStr [])])])]"
  let ?x = "[(''events'', JObj [(''session.idle'', JObj [(''message'', JStr ''x'')])])]"
  have p3: "partial_layer ?e" and p4: "partial_layer ?x"
    by (simp_all add: partial_layer_def all_fields_def all_categories_def get_prop_def
        opt_get_def)
  have lx: "layer_field ?x (EventMessage SessionIdle) = Some (JStr ''x'')"
    by (simp add: get_prop_def opt_get_def)
  have nonempty: "config_field (mergeConfig (mergeConfig DEFAULT_CONFIG ?e) ?x)
      (EventMessage SessionIdle) \<noteq> Some (JStr [])"
    using merge_totality [OF p3 p4, of SessionIdle] lx by simp
  have p1: "partial_layer [(''itermIntegrationEnabled'', JBool False), (''enabled'', JBool False)]"
    by (simp add: partial_layer_def all_fields_def all_categories_def get_prop_def opt_get_def)
  have p2: "partial_layer [(''enabled'', JBool True),
        (''events'', JObj [(''session.idle'', JObj [(''message'', JStr ''Done'')])])]"
    by (simp add: partial_layer_def all_fields_def all_categories_def get_prop_def opt_get_def)
  have n1: "sets_no_empty_message
      [(''itermIntegrationEnabled'', JBool False), (''enabled'', JBool False)]"
    by (simp add: sets_no_empty_message_def all_categories_def get_prop_def opt_get_def)
  have n2: "sets_no_empty_message [(''enabled'', JBool True),
        (''events'', JObj [(''session.idle'', JObj [(''message'', JStr ''Done'')])])]"
    by (simp add: sets_no_empty_message_def all_categories_def get_prop_def opt_get_def)
  show ?thesis
    using merge_totality [OF p1 p2] p1 p2 n1 n2 p3 p4 nonempty by blast
qed

text \<open>
  C1 as it is written fails: a layer may set a message to the empty string, which is a
  string, and the merge takes it. With the empty global layer and the project layer
  \<^verbatim>\<open>{ "events": { "session.idle": { "message": "" } } }\<close> the merged message of
  \<^verbatim>\<open>session.idle\<close> is empty.
\<close>

theorem merge_totality_counterexample:
  "partial_layer []
   \<and> partial_layer [(''events'', JObj [(''session.idle'', JObj [(''message'', JStr [])])])]
   \<and> config_field
        (mergeConfig (mergeConfig DEFAULT_CONFIG [])
           [(''events'', JObj [(''session.idle'', JObj [(''message'', JStr [])])])])
        (EventMessage SessionIdle) = Some (JStr [])
   \<and> \<not> messages_nonempty
        (mergeConfig (mergeConfig DEFAULT_CONFIG [])
           [(''events'', JObj [(''session.idle'', JObj [(''message'', JStr [])])])])"
  by (simp add: partial_layer_def all_fields_def all_categories_def get_prop_def opt_get_def
      messages_nonempty_def mergeConfig_def spread_def assign_def DEFAULT_CONFIG_def)

text \<open>
  C2 (field resolution), as amended. The top-level fields \<^verbatim>\<open>enabled\<close> and
  \<^verbatim>\<open>itermIntegrationEnabled\<close> are resolved by nullish coalescing: the higher layer's
  value when it has one that is not \<^verbatim>\<open>null\<close>, the lower layer's value otherwise. The
  nested fields \<^verbatim>\<open>enabled\<close> and \<^verbatim>\<open>message\<close> of a category are resolved by object
  spread: the higher layer's value whenever the key is present there, whatever the
  value, and the lower layer's value when the key is absent. So an explicit
  \<^verbatim>\<open>false\<close> or empty string overrides everywhere; a \<^verbatim>\<open>null\<close> falls through at the
  top level and overrides inside a category.
\<close>

theorem mergeConfig_field_resolution:
  "config_field (mergeConfig lower higher) f =
     (if nested f then own_field (layer_field higher f) (config_field lower f)
      else coalesce_field (layer_field higher f) (config_field lower f))"
  by (rule config_field_mergeConfig)

text \<open>
  C2 as it is written fails for the nested fields: with the layer
  \<^verbatim>\<open>{ "events": { "session.idle": { "enabled": null } } }\<close> over the defaults, nullish
  coalescing would keep the default \<^verbatim>\<open>true\<close>, and the merge yields \<^verbatim>\<open>null\<close>.
\<close>

theorem mergeConfig_nested_null_counterexample:
  "layer_field [(''events'', JObj [(''session.idle'', JObj [(''enabled'', JNull)])])]
      (EventEnabled SessionIdle) = Some JNull
   \<and> coalesce_field
        (layer_field [(''events'', JObj [(''session.idle'', JObj [(''enabled'', JNull)])])]
           (EventEnabled SessionIdle))
        (config_field DEFAULT_CONFIG (EventEnabled SessionIdle)) = Some (JBool True)
   \<and> config_field
        (mergeConfig DEFAULT_CONFIG
           [(''events'', JObj [(''session.idle'', JObj [(''enabled'', JNull)])])])
        (EventEnabled SessionIdle) = Some JNull"
  by (simp add: coalesce_field_def get_prop_def opt_get_def mergeConfig_def spread_def
      assign_def DEFAULT_CONFIG_def)

text \<open>
  C3 (precedence and fallthrough), as amended. For every field \<open>f\<close>, whatever the
  defaults hold: if the project layer \<open>L2\<close> sets \<open>f\<close> to \<open>v\<close>, the merged configuration has
  \<open>v\<close> at \<open>f\<close>, whatever the global layer \<open>L1\<close> holds; if \<open>L2\<close> passes \<open>f\<close> and \<open>L1\<close> sets it
  to \<open>v\<close>, the merged configuration has \<open>v\<close>; if both layers pass \<open>f\<close>, it has the
  default's \<open>f\<close>. A layer sets \<open>f\<close> when it holds a value for \<open>f\<close> that is not \<^verbatim>\<open>null\<close>,
  and passes \<open>f\<close> when \<open>f\<close> is absent. A \<^verbatim>\<open>null\<close> passes at the top level and is a set
  value inside a category. Every layer either sets or passes every field.
\<close>

theorem precedence_and_fallthrough:
  "(sets_field L2 f v
      \<longrightarrow> config_field (mergeConfig (mergeConfig defaults L1) L2) f = Some v)
   \<and> (passes_field L2 f \<and> sets_field L1 f v
      \<longrightarrow> config_field (mergeConfig (mergeConfig defaults L1) L2) f = Some v)
   \<and> (passes_field L2 f \<and> passes_field L1 f
      \<longrightarrow> config_field (mergeConfig (mergeConfig defaults L1) L2) f = config_field defaults f)
   \<and> (layer_field L f = Some v \<and> v \<noteq> JNull \<longrightarrow> sets_field L f v)
   \<and> (layer_field L f = None \<longrightarrow> passes_field L f)
   \<and> (layer_field L f = Some JNull
      \<longrightarrow> (if nested f then sets_field L f JNull else passes_field L f))
   \<and> (passes_field L f \<longleftrightarrow> (\<forall>u. \<not> sets_field L f u))"
proof (intro conjI impI)
  show "passes_field L f \<longleftrightarrow> (\<forall>u. \<not> sets_field L f u)"
    by (cases "layer_field L f") (auto simp: passes_field_def sets_field_def)
qed (auto simp: config_field_mergeConfig own_field_def coalesce_field_def sets_field_def
    passes_field_def split: json.splits)

text \<open>The amended statement at the layers of the repository's test of precedence: the
  project's \<^verbatim>\<open>enabled: true\<close> wins over the global \<^verbatim>\<open>enabled: false\<close>; the global
  \<^verbatim>\<open>itermIntegrationEnabled: false\<close>, which the project passes, is kept; and the
  message of \<^verbatim>\<open>session.error\<close>, which both layers pass, is the built-in one.\<close>

theorem precedence_and_fallthrough_witness:
  "sets_field [(''enabled'', JBool True)] Enabled (JBool True)
   \<and> config_field
        (mergeConfig
           (mergeConfig DEFAULT_CONFIG
              [(''itermIntegrationEnabled'', JBool False), (''enabled'', JBool False)])
           [(''enabled'', JBool True)]) Enabled = Some (JBool True)
   \<and> passes_field [(''enabled'', JBool True)] ItermIntegrationEnabled
   \<and> sets_field [(''itermIntegrationEnabled'', JBool False), (''enabled'', JBool False)]
        ItermIntegrationEnabled (JBool False)
   \<and> config_field
        (mergeConfig
           (mergeConfig DEFAULT_CONFIG
              [(''itermIntegrationEnabled'', JBool False), (''enabled'', JBool False)])
           [(''enabled'', JBool True)]) ItermIntegrationEnabled = Some (JBool False)
   \<and> passes_field [(''itermIntegrationEnabled'', JBool False), (''enabled'', JBool False)]
        (EventMessage SessionError)
   \<and> passes_field [(''enabled'', JBool True)] (EventMessage SessionError)
   \<and> config_field
        (mergeConfig
           (mergeConfig DEFAULT_CONFIG
              [(''itermIntegrationEnabled'', JBool False), (''enabled'', JBool False)])
           [(''enabled'', JBool True)]) (EventMessage SessionError)
       = Some (JStr ''Error occurred'')"
proof -
  let ?g = "[(''itermIntegrationEnabled'', JBool False), (''enabled'', JBool False)]"
  let ?p = "[(''enabled'', JBool True)]"
  have a: "sets_field ?p Enabled (JBool True)"
    by (simp add: sets_field_def get_prop_def)
  have b: "passes_field ?p ItermIntegrationEnabled"
    "sets_field ?g ItermIntegrationEnabled (JBool False)"
    by (simp_all add: sets_field_def passes_field_def get_prop_def)
  have c: "passes_field ?g (EventMessage SessionError)"
    "passes_field ?p (EventMessage SessionError)"
    by (simp_all add: passes_field_def get_prop_def opt_get_def)
  have d: "config_field DEFAULT_CONFIG (EventMessage SessionError) = Some (JStr ''Error occurred'')"
    by (simp add: DEFAULT_CONFIG_def get_prop_def)
  have r1: "config_field (mergeConfig (mergeConfig DEFAULT_CONFIG ?g) ?p) Enabled
      = Some (JBool True)"
    using a precedence_and_fallthrough [of ?p Enabled "JBool True" DEFAULT_CONFIG ?g] by blast
  have r2: "config_field (mergeConfig (mergeConfig DEFAULT_CONFIG ?g) ?p) ItermIntegrationEnabled
      = Some (JBool False)"
    using b precedence_and_fallthrough
      [of ?p ItermIntegrationEnabled "JBool False" DEFAULT_CONFIG ?g]
    by blast
  have r3: "config_field (mergeConfig (mergeConfig DEFAULT_CONFIG ?g) ?p)
      (EventMessage SessionError) = config_field DEFAULT_CONFIG (EventMessage SessionError)"
    using c precedence_and_fallthrough
      [of ?p "EventMessage SessionError" "JBool True" DEFAULT_CONFIG ?g]
    by blast
  show ?thesis
    using a b c r1 r2 r3 [unfolded d] by blast
qed

text \<open>
  C3 as it is written fails on a \<^verbatim>\<open>null\<close>, whichever way "sets" is read. If a key that
  is present counts as set, precedence fails: the project layer \<^verbatim>\<open>{ "enabled": null }\<close>
  over the global layer \<^verbatim>\<open>{ "enabled": false }\<close> leaves \<^verbatim>\<open>false\<close>, not the project's
  \<^verbatim>\<open>null\<close>. If a \<^verbatim>\<open>null\<close> counts as not set, fallthrough fails: with the global layer
  \<^verbatim>\<open>{ "events": { "session.idle": { "enabled": null } } }\<close> and the empty project layer,
  neither layer sets the field, and the merge yields \<^verbatim>\<open>null\<close>, not the default
  \<^verbatim>\<open>true\<close>.
\<close>

theorem precedence_null_counterexample:
  "layer_field [(''enabled'', JNull)] Enabled = Some JNull
   \<and> config_field
        (mergeConfig (mergeConfig DEFAULT_CONFIG [(''enabled'', JBool False)])
           [(''enabled'', JNull)]) Enabled = Some (JBool False)
   \<and> layer_field [(''events'', JObj [(''session.idle'', JObj [(''enabled'', JNull)])])]
        (EventEnabled SessionIdle) = Some JNull
   \<and> layer_field [] (EventEnabled SessionIdle) = None
   \<and> config_field
        (mergeConfig
           (mergeConfig DEFAULT_CONFIG
              [(''events'', JObj [(''session.idle'', JObj [(''enabled'', JNull)])])])
           []) (EventEnabled SessionIdle) = Some JNull
   \<and> config_field DEFAULT_CONFIG (EventEnabled SessionIdle) = Some (JBool True)"
  by (simp add: get_prop_def opt_get_def mergeConfig_def nullish_def spread_def assign_def
      DEFAULT_CONFIG_def)

section \<open>Properties of the dispatcher\<close>





lemma event_unrecognized:
  assumes "event_type ev \<noteq> ''session.idle''" and "event_type ev \<noteq> ''permission.updated''"
    and "event_type ev \<noteq> ''session.error''"
  shows "event cl config ev w = w"
  using assms by (simp add: event_def)


lemma stdout_log_call [simp]: "stdout (log_call c w) = stdout w"
  by (simp add: log_call_def)

lemma stdout_stdout_write [simp]: "stdout (stdout_write chunk w) = stdout w @ [chunk]"
  by (simp add: stdout_write_def)

lemma isITerm2_log_call [simp]: "isITerm2 (log_call c w) = isITerm2 w"
  by (simp add: isITerm2_def log_call_def)













text \<open>
  C8 (unknown events). An event whose type is none of \<^verbatim>\<open>session.idle\<close>,
  \<^verbatim>\<open>permission.updated\<close> and \<^verbatim>\<open>session.error\<close> leaves the world exactly as it is:
  nothing is written, no call is made, and the handler returns.
\<close>

theorem unknown_event_noop:
  assumes "event_type ev \<notin> set (map category_id all_categories)"
  shows "event cl config ev w = w"
  using assms by (simp add: event_unrecognized all_categories_def)

text \<open>An event type of the host that the plugin does not handle.\<close>

theorem unknown_event_noop_witness:
  "''session.created'' \<notin> set (map category_id all_categories)
   \<and> event (test_client None (Inl Rejected)) DEFAULT_CONFIG
       \<lparr>event_type = ''session.created'', properties = []\<rparr>
       (test_world [] (Some ''iTerm.app'') never_fails)
     = test_world [] (Some ''iTerm.app'') never_fails"
proof -
  have h: "event_type \<lparr>event_type = ''session.created'', properties = []\<rparr>
      \<notin> set (map category_id all_categories)"
    by (simp add: all_categories_def)
  show ?thesis
    using h unknown_event_noop [OF h, of "test_client None (Inl Rejected)" DEFAULT_CONFIG
        "test_world [] (Some ''iTerm.app'') never_fails"]
    by simp
qed



section \<open>Properties of the configuration files\<close>









lemma client_dir:
  assumes "fst (getGlobalConfigDir_client cl w) = Inr d"
  shows "getGlobalConfigDir_client cl w = (Inr d, log_call PathGet w)"
  using assms by (auto simp: getGlobalConfigDir_client_def split: sum.splits)













lemmas fixture_defs =
  test_world_def test_client_def never_fails_def fails_at_def getGlobalConfigDir_def



lemma getGlobalConfigDir_nonempty: "getGlobalConfigDir w \<noteq> []"
  by (simp add: getGlobalConfigDir_def)

lemma merge_if_present_None [simp]: "merge_if_present config None = config"
  by (simp add: merge_if_present_def)

lemma loadConfigFile_log:
  "io_log (snd (loadConfigFile p w)) = io_log w @ [Exists p]
   \<or> io_log (snd (loadConfigFile p w)) = io_log w @ [Exists p, ReadJson p]"
  by (auto simp: loadConfigFile_def file_exists_def file_json_def log_call_def
      split: bool.splits option.splits)

text \<open>\<^verbatim>\<open>loadConfig\<close> of \<^verbatim>\<open>internals.ts\<close> is the chain of merges over the two loaded
  layers: defaults, then the global layer, then the project layer.\<close>

lemma loadConfig_merge_chain:
  "fst (loadConfig directory w) =
     merge_if_present
       (merge_if_present DEFAULT_CONFIG
          (fst (loadConfigFile (getGlobalConfigDir w @ ''/notification.json'') w)))
       (fst (loadConfigFile (directory @ ''/.opencode/notification.json'')
          (snd (loadConfigFile (getGlobalConfigDir w @ ''/notification.json'') w))))"
  by (simp add: loadConfig_def Let_def split: prod.splits)

lemma merge_if_present_truthy:
  "truthy (Some v) \<Longrightarrow> merge_if_present config (Some v) = mergeConfig config (own_props v)"
  by (simp add: merge_if_present_def)

text \<open>
  C9 (empty global directory). In \<^verbatim>\<open>index.ts\<close>, when the host's directory resolves to the
  empty string, \<open>loadConfig\<close> makes no call for a global file: after asking the host it
  only probes (and, if it is there, reads) the project file, and the configuration is
  the defaults merged with the project layer alone. (In \<^verbatim>\<open>internals.ts\<close> the directory
  ends in \<^verbatim>\<open>/.config/opencode\<close> and is never empty.)
\<close>

theorem empty_global_dir_skips_global_layer:
  assumes "fst (getGlobalConfigDir_client cl w) = Inr (JStr [])"
  shows "loadConfig_client cl directory w =
      (Inr (merge_if_present DEFAULT_CONFIG
              (fst (loadConfigFile (directory @ ''/.opencode/notification.json'')
                      (log_call PathGet w)))),
       snd (loadConfigFile (directory @ ''/.opencode/notification.json'') (log_call PathGet w)))
    \<and> (io_log (snd (loadConfig_client cl directory w))
          = io_log w @ [PathGet, Exists (directory @ ''/.opencode/notification.json'')]
       \<or> io_log (snd (loadConfig_client cl directory w))
          = io_log w @ [PathGet, Exists (directory @ ''/.opencode/notification.json''),
                        ReadJson (directory @ ''/.opencode/notification.json'')])
    \<and> getGlobalConfigDir w' \<noteq> []"
proof -
  have eq: "loadConfig_client cl directory w =
      (Inr (merge_if_present DEFAULT_CONFIG
              (fst (loadConfigFile (directory @ ''/.opencode/notification.json'')
                      (log_call PathGet w)))),
       snd (loadConfigFile (directory @ ''/.opencode/notification.json'') (log_call PathGet w)))"
    using client_dir [OF assms]
    by (simp add: loadConfig_client_def split: prod.splits)
  show ?thesis
    unfolding eq
    using loadConfigFile_log [of "directory @ ''/.opencode/notification.json''" "log_call PathGet w"]
    by (simp add: log_call_def getGlobalConfigDir_nonempty)
qed

text \<open>A host without a configuration directory and a project that switches the plugin
  off.\<close>

theorem empty_global_dir_skips_global_layer_witness:
  "fst (getGlobalConfigDir_client (test_client (Some (JObj [(''config'', JStr [])])) (Inl Rejected))
        (test_world [(''/project/.opencode/notification.json'', ''{'' @ quoted ''enabled'' @ '':false}'')]
           None never_fails)) = Inr (JStr [])
   \<and> fst (loadConfig_client (test_client (Some (JObj [(''config'', JStr [])])) (Inl Rejected))
        ''/project''
        (test_world [(''/project/.opencode/notification.json'', ''{'' @ quoted ''enabled'' @ '':false}'')]
           None never_fails))
     = Inr (mergeConfig DEFAULT_CONFIG [(''enabled'', JBool False)])
   \<and> io_log (snd (loadConfig_client (test_client (Some (JObj [(''config'', JStr [])])) (Inl Rejected))
        ''/project''
        (test_world [(''/project/.opencode/notification.json'', ''{'' @ quoted ''enabled'' @ '':false}'')]
           None never_fails)))
     = [PathGet, Exists ''/project/.opencode/notification.json'',
        ReadJson ''/project/.opencode/notification.json'']"
proof -
  let ?cl = "test_client (Some (JObj [(''config'', JStr [])])) (Inl Rejected)"
  let ?w = "test_world
      [(''/project/.opencode/notification.json'', ''{'' @ quoted ''enabled'' @ '':false}'')]
      None never_fails"
  have h: "fst (getGlobalConfigDir_client ?cl ?w) = Inr (JStr [])"
    by (simp add: getGlobalConfigDir_client_def fixture_defs nullish_def opt_get_def get_prop_def)
  show ?thesis
    using h empty_global_dir_skips_global_layer [OF h, of "''/project''"]
    by (simp add: merge_if_present_def loadConfigFile_def file_exists_def file_json_def
        call_fails_def log_call_def fixture_defs test_parse_def quoted_def)
qed

end
